theory Spec2Isabelle
  imports
    Complex_Main
    "HOL-Library.Sublist"
    "HOL-Library.Log_Nat"
    "HOL-Library.Char_ord"
    "HOL-Library.List_Lexorder"
    "HOL-Library.Product_Lexorder"
begin

section \<open>Tables of the arepas training-set pipeline\<close>

text \<open>
  The program (\<^verbatim>\<open>arepas.py\<close>) is a linear pipeline over pandas tables: load three
  delimited files, keep the metric rows of one machine in a time window, drop the rows in
  the machine's faulty intervals, join with the batch registry, average per clock hour and
  product type, and keep one type.

  A table is an ordered list of rows; a row is a record with one field per column the
  pipeline reads, typed as the input files declare them (identifiers and types are text,
  timestamps are instants, metrics are numbers). Every cell read from a delimited file
  may be missing (pandas' \<^verbatim>\<open>NaN\<close>, and \<^verbatim>\<open>NaT\<close> in a datetime column), so every field
  of a loaded row is an \<open>option\<close> with \<open>None\<close> for the missing cell. A table that lacks
  one of these columns, or holds cells of another type in it, is not a value of these
  types: what pandas does on such a table is not part of this model.

  An instant is a \<^verbatim>\<open>datetime64[ns]\<close> value without time zone: the number of nanoseconds
  since the epoch. A metric value is a \<^verbatim>\<open>float64\<close>: a rational or an infinity, with
  every arithmetic result rounded to the nearest \<^verbatim>\<open>float64\<close>; the \<^verbatim>\<open>NaN\<close> of a metric
  column is the missing cell.

  The pandas operations the source calls (\<^verbatim>\<open>read_csv\<close>, \<^verbatim>\<open>to_datetime\<close>, comparison and
  boolean indexing of Series, \<^verbatim>\<open>merge\<close>, \<^verbatim>\<open>groupby\<close> with \<^verbatim>\<open>Grouper\<close> and \<^verbatim>\<open>mean\<close>) are
  written out here as their documentation gives them, with the arguments the source
  passes and the defaults it leaves.
\<close>

type_synonym instant = int

subsection \<open>Float64 arithmetic\<close>

text \<open>
  The metric columns are \<^verbatim>\<open>float64\<close> (IEEE 754 binary64). A value that is not \<^verbatim>\<open>NaN\<close> is
  a rational or one of the two infinities; \<^verbatim>\<open>NaN\<close> is \<open>None\<close>, as pandas takes it for the
  missing value. Zero has no sign here. \<open>round64\<close> rounds a rational to the nearest
  \<^verbatim>\<open>float64\<close>, ties to the even significand: 53 bits of significand, the least exponent
  \<open>-1022\<close> (below it the spacing stays \<open>2 ^ -1074\<close>), and the infinity when the rounded
  magnitude reaches \<open>2 ^ 1024\<close>: when its exponent, which is one more than the exponent of
  the rational if the significand rounds up to \<open>2 ^ 53\<close>, is 1024 or more.
\<close>

datatype float64 = Finite rat | PosInf | NegInf

definition pow2 :: "int \<Rightarrow> rat" where
  "pow2 e = (if 0 \<le> e then 2 ^ nat e else 1 / 2 ^ nat (- e))"

text \<open>The exponent \<open>e\<close> of a positive rational \<open>a\<close>, \<open>2 ^ e \<le> a < 2 ^ (e + 1)\<close>, from the bit
  lengths of its numerator and denominator.\<close>

definition ilog2 :: "rat \<Rightarrow> int" where
  "ilog2 a =
     (case quotient_of a of
        (n, d) \<Rightarrow> (let e = bitlen n - bitlen d in if pow2 e \<le> a then e else e - 1))"

definition round_half_even :: "rat \<Rightarrow> int" where
  "round_half_even x =
     (let f = \<lfloor>x\<rfloor>; d = x - of_int f
      in if d < 1 / 2 then f else if 1 / 2 < d then f + 1 else if even f then f else f + 1)"

definition round64 :: "rat \<Rightarrow> float64" where
  "round64 q =
     (if q = 0 then Finite 0
      else let a = \<bar>q\<bar>;
               e = max (ilog2 a) (- 1022);
               ulp = pow2 (e - 52);
               m = round_half_even (a / ulp);
               r = of_int m * ulp
           in if 1024 \<le> (if m = 2 ^ 53 then e + 1 else e)
              then (if 0 < q then PosInf else NegInf)
              else Finite (if 0 < q then r else - r))"

text \<open>Addition, negation and subtraction; an infinity minus itself is \<^verbatim>\<open>NaN\<close>, and
  \<^verbatim>\<open>NaN\<close> stays \<^verbatim>\<open>NaN\<close>.\<close>

fun fadd :: "float64 option \<Rightarrow> float64 option \<Rightarrow> float64 option" where
  "fadd (Some (Finite a)) (Some (Finite b)) = Some (round64 (a + b))"
| "fadd (Some PosInf) (Some NegInf) = None"
| "fadd (Some NegInf) (Some PosInf) = None"
| "fadd (Some PosInf) (Some _) = Some PosInf"
| "fadd (Some _) (Some PosInf) = Some PosInf"
| "fadd (Some NegInf) (Some _) = Some NegInf"
| "fadd (Some _) (Some NegInf) = Some NegInf"
| "fadd None _ = None"
| "fadd _ None = None"

fun fneg :: "float64 option \<Rightarrow> float64 option" where
  "fneg (Some (Finite a)) = Some (Finite (- a))"
| "fneg (Some PosInf) = Some NegInf"
| "fneg (Some NegInf) = Some PosInf"
| "fneg None = None"

definition fsub :: "float64 option \<Rightarrow> float64 option \<Rightarrow> float64 option" where
  "fsub x y = fadd x (fneg y)"

text \<open>Division of a sum by a count of rows: the count, an integer, is converted to
  \<^verbatim>\<open>float64\<close> first.\<close>

fun fdiv_count :: "float64 option \<Rightarrow> nat \<Rightarrow> float64 option" where
  "fdiv_count (Some (Finite a)) n =
     (case round64 (of_nat n) of Finite c \<Rightarrow> Some (round64 (a / c)) | _ \<Rightarrow> Some (Finite 0))"
| "fdiv_count (Some PosInf) n = (case round64 (of_nat n) of Finite c \<Rightarrow> Some PosInf | _ \<Rightarrow> None)"
| "fdiv_count (Some NegInf) n = (case round64 (of_nat n) of Finite c \<Rightarrow> Some NegInf | _ \<Rightarrow> None)"
| "fdiv_count None n = None"

subsection \<open>Rows\<close>

text \<open>A row of the cooking-metrics table: columns \<^verbatim>\<open>machine_id\<close>, \<^verbatim>\<open>timestamp\<close>,
  \<^verbatim>\<open>batch_id\<close>, \<^verbatim>\<open>metric_1\<close>, \<^verbatim>\<open>metric_2\<close>.\<close>

record MetricRecord =
  machine_id :: "string option"
  timestamp :: "instant option"
  batch_id :: "string option"
  metric_1 :: "float64 option"
  metric_2 :: "float64 option"

text \<open>A row of the faulty-intervals table: columns \<^verbatim>\<open>machine_id\<close>, \<^verbatim>\<open>start_time\<close>,
  \<^verbatim>\<open>end_time\<close> (the fields carry the prefix \<open>fi_\<close>, a field name being one constant).\<close>

record FaultyInterval =
  fi_machine_id :: "string option"
  fi_start_time :: "instant option"
  fi_end_time :: "instant option"

text \<open>A row of the batch registry: columns \<^verbatim>\<open>batch_id\<close> and \<^verbatim>\<open>arepa_type\<close>
  (prefix \<open>br_\<close>).\<close>

record BatchRegistryEntry =
  br_batch_id :: "string option"
  br_arepa_type :: "string option"

text \<open>A row of the joined table: the columns of the metric row and \<^verbatim>\<open>arepa_type\<close> of
  the matching registry row.\<close>

record MergedRecord = MetricRecord +
  arepa_type :: "string option"

text \<open>A row of the aggregate: columns \<^verbatim>\<open>timestamp\<close>, \<^verbatim>\<open>arepa_type\<close>, \<^verbatim>\<open>metric_1\<close>,
  \<^verbatim>\<open>metric_2\<close> (prefix \<open>avg_\<close>). The two keys of a group are never missing.\<close>

record HourlyAggregate =
  avg_timestamp :: instant
  avg_arepa_type :: string
  avg_metric_1 :: "float64 option"
  avg_metric_2 :: "float64 option"

subsection \<open>Series operations\<close>

text \<open>
  A pandas Series is the list of one column's cells, in row order. A comparison of a
  datetime Series with an instant is taken cell by cell and is \<^verbatim>\<open>False\<close> where either
  side is \<^verbatim>\<open>NaT\<close>.
\<close>

fun instant_ge :: "instant option \<Rightarrow> instant option \<Rightarrow> bool" where
  "instant_ge (Some a) (Some b) = (a \<ge> b)"
| "instant_ge _ _ = False"

fun instant_le :: "instant option \<Rightarrow> instant option \<Rightarrow> bool" where
  "instant_le (Some a) (Some b) = (a \<le> b)"
| "instant_le _ _ = False"

text \<open>\<^verbatim>\<open>a & b\<close> and \<^verbatim>\<open>~a\<close> on boolean Series of one table, and \<^verbatim>\<open>df[mask]\<close>: the rows
  at which the mask holds, in their order.\<close>

definition series_and :: "bool list \<Rightarrow> bool list \<Rightarrow> bool list" where
  "series_and a b = map2 (\<and>) a b"

definition series_not :: "bool list \<Rightarrow> bool list" where
  "series_not a = map Not a"

definition boolean_index :: "'a list \<Rightarrow> bool list \<Rightarrow> 'a list" where
  "boolean_index df selection = map fst (filter snd (zip df selection))"

subsection \<open>Time-window filter\<close>

text \<open>
  \<^verbatim>\<open>
  return cooking_metrics[(cooking_metrics['machine_id'] == machine) &
                         (cooking_metrics['timestamp'] >= start_time) &
                         (cooking_metrics['timestamp'] <= end_time)]
  \<close>
\<close>

definition filter_cooking_data ::
  "MetricRecord list \<Rightarrow> string \<Rightarrow> instant \<Rightarrow> instant \<Rightarrow> MetricRecord list" where
  "filter_cooking_data cooking_metrics machine start_datetime end_datetime =
     boolean_index cooking_metrics
       (series_and
         (series_and
           (map (\<lambda>v. v = Some machine) (map machine_id cooking_metrics))
           (map (\<lambda>v. instant_ge v (Some start_datetime)) (map timestamp cooking_metrics)))
         (map (\<lambda>v. instant_le v (Some end_datetime)) (map timestamp cooking_metrics)))"

subsection \<open>Faulty-interval excluder\<close>

text \<open>
  \<^verbatim>\<open>
  for _, row in faulty_intervals.iterrows():
      if row['machine_id'] == machine_id:
          faulty_mask = ((filtered_metrics['timestamp'] >= row['start_time']) &
                         (filtered_metrics['timestamp'] <= row['end_time']))
          filtered_metrics = filtered_metrics[~faulty_mask]
  return filtered_metrics
  \<close>
  The loop is a recursion over the interval rows that passes the current
  \<^verbatim>\<open>filtered_metrics\<close> on. The parameter \<^verbatim>\<open>machine_id\<close> is called \<open>machine\<close> here.
\<close>

definition faulty_mask :: "FaultyInterval \<Rightarrow> MetricRecord list \<Rightarrow> bool list" where
  "faulty_mask row filtered_metrics =
     series_and
       (map (\<lambda>v. instant_ge v (fi_start_time row)) (map timestamp filtered_metrics))
       (map (\<lambda>v. instant_le v (fi_end_time row)) (map timestamp filtered_metrics))"

fun filter_faulty_intervals ::
  "FaultyInterval list \<Rightarrow> MetricRecord list \<Rightarrow> string \<Rightarrow> MetricRecord list" where
  "filter_faulty_intervals [] filtered_metrics machine = filtered_metrics"
| "filter_faulty_intervals (row # faulty_intervals) filtered_metrics machine =
     (if fi_machine_id row = Some machine
      then filter_faulty_intervals faulty_intervals
             (boolean_index filtered_metrics (series_not (faulty_mask row filtered_metrics)))
             machine
      else filter_faulty_intervals faulty_intervals filtered_metrics machine)"

subsection \<open>Batch join\<close>

text \<open>
  \<^verbatim>\<open>merged_data = pd_merge(filtered_metrics, batch_registry, on='batch_id')\<close>:
  the inner join on the key column. For each left row, in order, one output row per
  right row with an equal key; pandas matches a missing key with a missing key, as
  equality on \<open>option\<close> does.
\<close>

definition merge_row :: "MetricRecord \<Rightarrow> BatchRegistryEntry \<Rightarrow> MergedRecord" where
  "merge_row l r =
     \<lparr>machine_id = machine_id l, timestamp = timestamp l, batch_id = batch_id l,
      metric_1 = metric_1 l, metric_2 = metric_2 l, arepa_type = br_arepa_type r\<rparr>"

definition pd_merge :: "MetricRecord list \<Rightarrow> BatchRegistryEntry list \<Rightarrow> MergedRecord list" where
  "pd_merge left right =
     concat (map (\<lambda>l. map (merge_row l) (filter (\<lambda>r. br_batch_id r = batch_id l) right)) left)"

subsection \<open>Hourly aggregator\<close>

text \<open>
  \<^verbatim>\<open>
  merged_data.groupby([pd_Grouper(key=time_column, freq=frequency), 'arepa_type']).agg(
      {'metric_1': 'mean', 'metric_2': 'mean'}).reset_index()
  \<close>
  with the defaults \<^verbatim>\<open>time_column='timestamp'\<close> and \<^verbatim>\<open>frequency='h'\<close>, the only
  way the pipeline calls it. The grouper labels a row with the start of the clock hour
  of its timestamp. A row with a missing key is in no group (\<^verbatim>\<open>dropna=True\<close>); the
  groups come out sorted by key (\<^verbatim>\<open>sort=True\<close>), one row each.
\<close>

definition hour :: int where
  "hour = 3600000000000"

definition hour_bucket :: "instant \<Rightarrow> instant" where
  "hour_bucket t = (t div hour) * hour"

definition group_key :: "MergedRecord \<Rightarrow> (instant \<times> string) option" where
  "group_key r =
     (case timestamp r of
        None \<Rightarrow> None
      | Some t \<Rightarrow> (case arepa_type r of None \<Rightarrow> None | Some a \<Rightarrow> Some (hour_bucket t, a)))"

text \<open>
  The \<^verbatim>\<open>mean\<close> of a group's column, as pandas' group mean accumulates it, over the cells in
  row order:
  \<^verbatim>\<open>
  if not isna_entry:
      nobs += 1
      y = val - compensation
      t = sumx + y
      compensation = t - sumx - y
      if compensation != compensation:
          compensation = 0
      sumx = t
  ...
  if nobs == 0: out = NaN
  else: out = sumx / nobs
  \<close>
  The sum and the count run over the cells that are not missing; the sum carries a
  compensation term (Kahan summation), reset when it is \<^verbatim>\<open>NaN\<close>; a column with no such
  cell has the missing mean.
\<close>

fun mean_step ::
  "float64 option \<times> float64 option \<times> nat \<Rightarrow> float64 option
     \<Rightarrow> float64 option \<times> float64 option \<times> nat" where
  "mean_step (sumx, compensation, nobs) None = (sumx, compensation, nobs)"
| "mean_step (sumx, compensation, nobs) (Some val) =
     (let y = fsub (Some val) compensation;
          t = fadd sumx y;
          c = fsub (fsub t sumx) y
      in (t, (if c = None then Some (Finite 0) else c), Suc nobs))"

definition mean :: "float64 option list \<Rightarrow> float64 option" where
  "mean cells =
     (case foldl mean_step (Some (Finite 0), Some (Finite 0), 0) cells of
        (sumx, compensation, nobs) \<Rightarrow> if nobs = 0 then None else fdiv_count sumx nobs)"

definition group_by_hourly_average_cooking_metrics :: "MergedRecord list \<Rightarrow> HourlyAggregate list" where
  "group_by_hourly_average_cooking_metrics merged_data =
     map (\<lambda>k.
            \<lparr>avg_timestamp = fst k, avg_arepa_type = snd k,
             avg_metric_1 = mean (map metric_1 (filter (\<lambda>r. group_key r = Some k) merged_data)),
             avg_metric_2 = mean (map metric_2 (filter (\<lambda>r. group_key r = Some k) merged_data))\<rparr>)
         (sort (remdups (List.map_filter group_key merged_data)))"

text \<open>The aggregate in the spec's words, to compare \<open>mean\<close> with: the cells of a column that
  are not missing, and the arithmetic mean of rationals, which an empty list does not
  have. A rational is representable when rounding does not change it.\<close>

definition non_null :: "'a option list \<Rightarrow> 'a list" where
  "non_null cells = [x. Some x \<leftarrow> cells]"

definition arithmetic_mean :: "rat list \<Rightarrow> rat option" where
  "arithmetic_mean vs = (if vs = [] then None else Some (sum_list vs / of_nat (length vs)))"

definition representable :: "rat \<Rightarrow> bool" where
  "representable q = (round64 q = Finite q)"

subsection \<open>Type filter\<close>

text \<open>\<^verbatim>\<open>return merged_data[(merged_data['arepa_type'] == arepa)]\<close>, called on the
  aggregate.\<close>

definition filter_by_arepa_type :: "HourlyAggregate list \<Rightarrow> string \<Rightarrow> HourlyAggregate list" where
  "filter_by_arepa_type merged_data arepa =
     boolean_index merged_data (map (\<lambda>v. v = arepa) (map avg_arepa_type merged_data))"

subsection \<open>Dataset loader\<close>

text \<open>
  \<^verbatim>\<open>
  try:
      file_dataset = pd_import_csv(file_path, delimiter=delimiter, decimal=decimal_separator)
  except FileNotFoundError as file_not_found:
      logger.error(f"Error loading the file: {file_not_found}")
      raise file_not_found
  for col in date_columns:
      if col in file_dataset.columns:
          file_dataset[col] = pd_to_datetime(file_dataset[col], errors='coerce')
  return file_dataset
  \<close>
  The loader works on a table of any columns, so its table is a list of column names and
  rows that map a column name to a cell.

  The file system maps a path to the file it resolves to; a path that resolves to no file
  is not in the map. \<^verbatim>\<open>pandas.read_csv\<close> opens the path as Python's \<^verbatim>\<open>open\<close> does: it
  raises \<open>FileNotFoundError\<close> for a path that resolves to no file and \<open>PermissionError\<close>
  for a file the process may not read; it raises a parser error for a file whose text it
  cannot parse, and returns the table otherwise. The delimiter and the decimal separator
  only enter the parsing of the text.

  \<^verbatim>\<open>pandas.to_datetime\<close> reads a column: \<open>parse column c\<close> is the instant it reads in the
  cell \<open>c\<close> of that column, and \<open>None\<close> where it reads none, which \<^verbatim>\<open>errors='coerce'\<close>
  turns into the missing instant. A missing cell stays missing and an instant stays as it
  is. \<open>ValueError\<close> is the exception of \<^verbatim>\<open>datetime.fromisoformat\<close>.
\<close>

datatype error = FileNotFoundError | PermissionError | ParserError | ValueError

datatype cell = Null | Text string | Number rat | Instant instant

record dataframe =
  columns :: "string list"
  rows :: "(string \<rightharpoonup> cell) list"










subsection \<open>Pipeline\<close>

text \<open>
  \<^verbatim>\<open>generate_training_dataset\<close> loads the three tables, parses the two instants and runs
  the stages in a fixed order. The first three arguments are the results of its three
  \<^verbatim>\<open>load_dataset\<close> calls, each table read through the columns of its schema, and
  \<open>start_parsed\<close>, \<open>end_parsed\<close> the results of its two \<^verbatim>\<open>datetime.fromisoformat\<close>
  calls; an exception of any of them ends the run with that exception, in the order in
  which the source makes the calls.
\<close>

definition generate_training_dataset ::
  "error + MetricRecord list \<Rightarrow> error + FaultyInterval list \<Rightarrow> error + BatchRegistryEntry list
     \<Rightarrow> string \<Rightarrow> string \<Rightarrow> error + instant \<Rightarrow> error + instant \<Rightarrow> error + HourlyAggregate list" where
  "generate_training_dataset cooking_loaded faulty_loaded batch_loaded machine arepa_type_name
       start_parsed end_parsed =
     (case cooking_loaded of Inl e \<Rightarrow> Inl e | Inr cooking_metrics \<Rightarrow>
      case faulty_loaded of Inl e \<Rightarrow> Inl e | Inr faulty_intervals \<Rightarrow>
      case batch_loaded of Inl e \<Rightarrow> Inl e | Inr batch_registry \<Rightarrow>
      case start_parsed of Inl e \<Rightarrow> Inl e | Inr start_datetime \<Rightarrow>
      case end_parsed of Inl e \<Rightarrow> Inl e | Inr end_datetime \<Rightarrow>
        (let filtered_metrics = filter_cooking_data cooking_metrics machine start_datetime end_datetime;
             filtered_metrics = filter_faulty_intervals faulty_intervals filtered_metrics machine;
             merged_data = pd_merge filtered_metrics batch_registry;
             hourly_avg_metrics = group_by_hourly_average_cooking_metrics merged_data;
             result_dataset = filter_by_arepa_type hourly_avg_metrics arepa_type_name
         in Inr result_dataset))"

text \<open>The instant at \<open>h:m\<close> o'clock on day number \<open>day\<close> after the epoch, to write a
  scenario whose times of day carry no date.\<close>

definition minute :: int where
  "minute = 60000000000"

definition clock_time :: "int \<Rightarrow> int \<Rightarrow> int \<Rightarrow> instant" where
  "clock_time day h m = day * (24 * hour) + h * hour + m * minute"

section \<open>Properties\<close>

subsection \<open>Masks\<close>

lemma boolean_index_map: "boolean_index xs (map p xs) = filter p xs"
  unfolding boolean_index_def by (induction xs) auto

lemma series_and_map: "series_and (map p xs) (map q xs) = map (\<lambda>x. p x \<and> q x) xs"
  unfolding series_and_def by (induction xs) auto

lemma series_not_map: "series_not (map p xs) = map (\<lambda>x. \<not> p x) xs"
  unfolding series_not_def by simp

subsection \<open>The two row filters as list filters\<close>

lemma filter_cooking_data_filter:
  "filter_cooking_data cm machine s e =
     filter (\<lambda>r. machine_id r = Some machine \<and> instant_ge (timestamp r) (Some s) \<and> instant_le (timestamp r) (Some e)) cm"
  unfolding filter_cooking_data_def
  by (simp add: series_and_map boolean_index_map o_def)

lemma in_window_iff:
  "instant_ge v (Some s) \<and> instant_le v (Some e) \<longleftrightarrow> (\<exists>t. v = Some t \<and> s \<le> t \<and> t \<le> e)"
  by (cases v) auto

lemma in_range_iff:
  "instant_ge v a \<and> instant_le v b \<longleftrightarrow> (\<exists>t lo hi. v = Some t \<and> a = Some lo \<and> b = Some hi \<and> lo \<le> t \<and> t \<le> hi)"
  by (cases v; cases a; cases b) auto

lemma faulty_mask_map:
  "faulty_mask row fm = map (\<lambda>r. instant_ge (timestamp r) (fi_start_time row) \<and> instant_le (timestamp r) (fi_end_time row)) fm"
  unfolding faulty_mask_def by (simp add: series_and_map o_def)

lemma filter_faulty_intervals_filter:
  "filter_faulty_intervals fi fm machine =
     filter (\<lambda>r. \<not> (\<exists>row \<in> set fi. fi_machine_id row = Some machine \<and>
                     instant_ge (timestamp r) (fi_start_time row) \<and> instant_le (timestamp r) (fi_end_time row))) fm"
proof (induction fi arbitrary: fm)
  case Nil
  show ?case by simp
next
  case (Cons row fi)
  show ?case
    by (simp add: Cons.IH faulty_mask_map series_not_map boolean_index_map conj_commute)
qed

subsection \<open>Time-window filter: which rows are kept\<close>

text \<open>
  Claim C2. For every metrics table, machine identifier and instant range \<open>[s, e]\<close>, a
  row is kept by the time-window filter if and only if its \<^verbatim>\<open>machine_id\<close> is the target
  machine and its timestamp \<open>t\<close> satisfies \<open>s \<le> t \<le> e\<close>, both bounds included; a row
  with a missing timestamp is never kept; the kept rows are in the order of the input
  (the output is the input filtered, hence a subsequence of it).
\<close>

theorem filter_cooking_data_window:
  "filter_cooking_data cm machine s e =
     filter (\<lambda>r. machine_id r = Some machine \<and> (\<exists>t. timestamp r = Some t \<and> s \<le> t \<and> t \<le> e)) cm
   \<and> (\<forall>r. r \<in> set (filter_cooking_data cm machine s e) \<longleftrightarrow>
          r \<in> set cm \<and> machine_id r = Some machine \<and> (\<exists>t. timestamp r = Some t \<and> s \<le> t \<and> t \<le> e))
   \<and> (\<forall>r. timestamp r = None \<longrightarrow> r \<notin> set (filter_cooking_data cm machine s e))
   \<and> subseq (filter_cooking_data cm machine s e) cm"
proof -
  have eq: "filter_cooking_data cm machine s e =
     filter (\<lambda>r. machine_id r = Some machine \<and> (\<exists>t. timestamp r = Some t \<and> s \<le> t \<and> t \<le> e)) cm"
    by (simp add: filter_cooking_data_filter in_window_iff)
  show ?thesis
    unfolding eq by auto
qed

text \<open>The theorem at a table with a row on each bound, a row past the upper bound, a row of
  another machine and a row without timestamp.\<close>

theorem filter_cooking_data_window_witness:
  "filter_cooking_data
     [\<lparr>machine_id = Some ''M1'', timestamp = Some 10, batch_id = Some ''B1'', metric_1 = Some (Finite 2), metric_2 = Some (Finite 4)\<rparr>,
      \<lparr>machine_id = Some ''M2'', timestamp = Some 15, batch_id = Some ''B1'', metric_1 = Some (Finite 2), metric_2 = Some (Finite 4)\<rparr>,
      \<lparr>machine_id = Some ''M1'', timestamp = None, batch_id = Some ''B1'', metric_1 = Some (Finite 3), metric_2 = None\<rparr>,
      \<lparr>machine_id = Some ''M1'', timestamp = Some 20, batch_id = Some ''B2'', metric_1 = None, metric_2 = Some (Finite 5)\<rparr>,
      \<lparr>machine_id = Some ''M1'', timestamp = Some 21, batch_id = Some ''B2'', metric_1 = None, metric_2 = Some (Finite 5)\<rparr>]
     ''M1'' 10 20 =
     [\<lparr>machine_id = Some ''M1'', timestamp = Some 10, batch_id = Some ''B1'', metric_1 = Some (Finite 2), metric_2 = Some (Finite 4)\<rparr>,
      \<lparr>machine_id = Some ''M1'', timestamp = Some 20, batch_id = Some ''B2'', metric_1 = None, metric_2 = Some (Finite 5)\<rparr>]"
  using filter_cooking_data_window [of
     "[\<lparr>machine_id = Some ''M1'', timestamp = Some 10, batch_id = Some ''B1'', metric_1 = Some (Finite 2), metric_2 = Some (Finite 4)\<rparr>,
      \<lparr>machine_id = Some ''M2'', timestamp = Some 15, batch_id = Some ''B1'', metric_1 = Some (Finite 2), metric_2 = Some (Finite 4)\<rparr>,
      \<lparr>machine_id = Some ''M1'', timestamp = None, batch_id = Some ''B1'', metric_1 = Some (Finite 3), metric_2 = None\<rparr>,
      \<lparr>machine_id = Some ''M1'', timestamp = Some 20, batch_id = Some ''B2'', metric_1 = None, metric_2 = Some (Finite 5)\<rparr>,
      \<lparr>machine_id = Some ''M1'', timestamp = Some 21, batch_id = Some ''B2'', metric_1 = None, metric_2 = Some (Finite 5)\<rparr>]"
     "''M1''" 10 20]
  by simp

subsection \<open>Faulty-interval excluder: which rows are removed\<close>

text \<open>
  Claim C1. For every metrics table, faulty-interval table and machine, the excluder
  removes exactly the metric rows whose timestamp lies in the closed range
  \<open>[start_time, end_time]\<close> of at least one interval of that machine: the rows of the
  result are the rows of the input minus the union, over the matching intervals, of the
  rows in the interval's range. Intervals of other machines are ignored, an empty
  interval table leaves the metrics unchanged, and an interval with
  \<open>start_time = end_time\<close> excludes only the rows with that exact timestamp.
\<close>

theorem filter_faulty_intervals_set_difference:
  "filter_faulty_intervals fi fm machine =
     filter (\<lambda>r. \<not> (\<exists>row \<in> set fi. fi_machine_id row = Some machine \<and>
                   (\<exists>t lo hi. timestamp r = Some t \<and> fi_start_time row = Some lo \<and>
                              fi_end_time row = Some hi \<and> lo \<le> t \<and> t \<le> hi))) fm
   \<and> set (filter_faulty_intervals fi fm machine) =
       set fm - (\<Union>row \<in> {row \<in> set fi. fi_machine_id row = Some machine}.
                  {r. \<exists>t lo hi. timestamp r = Some t \<and> fi_start_time row = Some lo \<and>
                                 fi_end_time row = Some hi \<and> lo \<le> t \<and> t \<le> hi})
   \<and> filter_faulty_intervals fi fm machine =
       filter_faulty_intervals (filter (\<lambda>row. fi_machine_id row = Some machine) fi) fm machine
   \<and> filter_faulty_intervals [] fm machine = fm
   \<and> (fi_machine_id row = Some machine \<and> fi_start_time row = Some t \<and> fi_end_time row = Some t \<longrightarrow>
        filter_faulty_intervals [row] fm machine = filter (\<lambda>r. timestamp r \<noteq> Some t) fm)"
proof -
  have eq: "filter_faulty_intervals fi fm machine =
     filter (\<lambda>r. \<not> (\<exists>row \<in> set fi. fi_machine_id row = Some machine \<and>
                   (\<exists>t lo hi. timestamp r = Some t \<and> fi_start_time row = Some lo \<and>
                              fi_end_time row = Some hi \<and> lo \<le> t \<and> t \<le> hi))) fm"
    by (simp add: filter_faulty_intervals_filter in_range_iff)
  have diff: "set (filter_faulty_intervals fi fm machine) =
       set fm - (\<Union>row \<in> {row \<in> set fi. fi_machine_id row = Some machine}.
                  {r. \<exists>t lo hi. timestamp r = Some t \<and> fi_start_time row = Some lo \<and>
                                 fi_end_time row = Some hi \<and> lo \<le> t \<and> t \<le> hi})"
    unfolding eq by auto
  have others: "filter_faulty_intervals fi fm machine =
       filter_faulty_intervals (filter (\<lambda>row. fi_machine_id row = Some machine) fi) fm machine"
    unfolding filter_faulty_intervals_filter by (rule filter_cong) auto
  have point: "fi_machine_id row = Some machine \<and> fi_start_time row = Some t \<and> fi_end_time row = Some t \<longrightarrow>
        filter_faulty_intervals [row] fm machine = filter (\<lambda>r. timestamp r \<noteq> Some t) fm"
  proof
    assume a: "fi_machine_id row = Some machine \<and> fi_start_time row = Some t \<and> fi_end_time row = Some t"
    have "\<And>v. (instant_ge v (Some t) \<and> instant_le v (Some t)) = (v = Some t)"
      by (auto simp: in_range_iff)
    with a show "filter_faulty_intervals [row] fm machine = filter (\<lambda>r. timestamp r \<noteq> Some t) fm"
      by (simp add: filter_faulty_intervals_filter)
  qed
  from eq diff others point show ?thesis by simp
qed

text \<open>The excluder on two overlapping intervals of the machine and one of another
  machine, and on an interval that is one instant.\<close>

theorem filter_faulty_intervals_set_difference_witness:
  "filter_faulty_intervals
     [\<lparr>fi_machine_id = Some ''M1'', fi_start_time = Some 10, fi_end_time = Some 20\<rparr>,
      \<lparr>fi_machine_id = Some ''M2'', fi_start_time = Some 0, fi_end_time = Some 100\<rparr>,
      \<lparr>fi_machine_id = Some ''M1'', fi_start_time = Some 15, fi_end_time = Some 21\<rparr>]
     [\<lparr>machine_id = Some ''M1'', timestamp = Some 5, batch_id = Some ''B1'', metric_1 = Some (Finite 1), metric_2 = None\<rparr>,
      \<lparr>machine_id = Some ''M1'', timestamp = Some 10, batch_id = Some ''B1'', metric_1 = Some (Finite 1), metric_2 = None\<rparr>,
      \<lparr>machine_id = Some ''M1'', timestamp = None, batch_id = Some ''B1'', metric_1 = Some (Finite 1), metric_2 = None\<rparr>,
      \<lparr>machine_id = Some ''M1'', timestamp = Some 15, batch_id = Some ''B1'', metric_1 = Some (Finite 1), metric_2 = None\<rparr>,
      \<lparr>machine_id = Some ''M1'', timestamp = Some 20, batch_id = Some ''B1'', metric_1 = Some (Finite 1), metric_2 = None\<rparr>,
      \<lparr>machine_id = Some ''M1'', timestamp = Some 21, batch_id = Some ''B1'', metric_1 = Some (Finite 1), metric_2 = None\<rparr>,
      \<lparr>machine_id = Some ''M1'', timestamp = Some 30, batch_id = Some ''B1'', metric_1 = Some (Finite 1), metric_2 = None\<rparr>]
     ''M1'' =
     [\<lparr>machine_id = Some ''M1'', timestamp = Some 5, batch_id = Some ''B1'', metric_1 = Some (Finite 1), metric_2 = None\<rparr>,
      \<lparr>machine_id = Some ''M1'', timestamp = None, batch_id = Some ''B1'', metric_1 = Some (Finite 1), metric_2 = None\<rparr>,
      \<lparr>machine_id = Some ''M1'', timestamp = Some 30, batch_id = Some ''B1'', metric_1 = Some (Finite 1), metric_2 = None\<rparr>]
   \<and> filter_faulty_intervals
     [\<lparr>fi_machine_id = Some ''M1'', fi_start_time = Some 30, fi_end_time = Some 30\<rparr>]
     [\<lparr>machine_id = Some ''M1'', timestamp = Some 5, batch_id = Some ''B1'', metric_1 = Some (Finite 1), metric_2 = None\<rparr>,
      \<lparr>machine_id = Some ''M1'', timestamp = Some 10, batch_id = Some ''B1'', metric_1 = Some (Finite 1), metric_2 = None\<rparr>,
      \<lparr>machine_id = Some ''M1'', timestamp = None, batch_id = Some ''B1'', metric_1 = Some (Finite 1), metric_2 = None\<rparr>,
      \<lparr>machine_id = Some ''M1'', timestamp = Some 15, batch_id = Some ''B1'', metric_1 = Some (Finite 1), metric_2 = None\<rparr>,
      \<lparr>machine_id = Some ''M1'', timestamp = Some 20, batch_id = Some ''B1'', metric_1 = Some (Finite 1), metric_2 = None\<rparr>,
      \<lparr>machine_id = Some ''M1'', timestamp = Some 21, batch_id = Some ''B1'', metric_1 = Some (Finite 1), metric_2 = None\<rparr>,
      \<lparr>machine_id = Some ''M1'', timestamp = Some 30, batch_id = Some ''B1'', metric_1 = Some (Finite 1), metric_2 = None\<rparr>]
     ''M1'' =
     [\<lparr>machine_id = Some ''M1'', timestamp = Some 5, batch_id = Some ''B1'', metric_1 = Some (Finite 1), metric_2 = None\<rparr>,
      \<lparr>machine_id = Some ''M1'', timestamp = Some 10, batch_id = Some ''B1'', metric_1 = Some (Finite 1), metric_2 = None\<rparr>,
      \<lparr>machine_id = Some ''M1'', timestamp = None, batch_id = Some ''B1'', metric_1 = Some (Finite 1), metric_2 = None\<rparr>,
      \<lparr>machine_id = Some ''M1'', timestamp = Some 15, batch_id = Some ''B1'', metric_1 = Some (Finite 1), metric_2 = None\<rparr>,
      \<lparr>machine_id = Some ''M1'', timestamp = Some 20, batch_id = Some ''B1'', metric_1 = Some (Finite 1), metric_2 = None\<rparr>,
      \<lparr>machine_id = Some ''M1'', timestamp = Some 21, batch_id = Some ''B1'', metric_1 = Some (Finite 1), metric_2 = None\<rparr>]"
  using filter_faulty_intervals_set_difference [where
     fi = "[\<lparr>fi_machine_id = Some ''M1'', fi_start_time = Some 10, fi_end_time = Some 20\<rparr>,
      \<lparr>fi_machine_id = Some ''M2'', fi_start_time = Some 0, fi_end_time = Some 100\<rparr>,
      \<lparr>fi_machine_id = Some ''M1'', fi_start_time = Some 15, fi_end_time = Some 21\<rparr>]"
     and fm = "[\<lparr>machine_id = Some ''M1'', timestamp = Some 5, batch_id = Some ''B1'', metric_1 = Some (Finite 1), metric_2 = None\<rparr>,
      \<lparr>machine_id = Some ''M1'', timestamp = Some 10, batch_id = Some ''B1'', metric_1 = Some (Finite 1), metric_2 = None\<rparr>,
      \<lparr>machine_id = Some ''M1'', timestamp = None, batch_id = Some ''B1'', metric_1 = Some (Finite 1), metric_2 = None\<rparr>,
      \<lparr>machine_id = Some ''M1'', timestamp = Some 15, batch_id = Some ''B1'', metric_1 = Some (Finite 1), metric_2 = None\<rparr>,
      \<lparr>machine_id = Some ''M1'', timestamp = Some 20, batch_id = Some ''B1'', metric_1 = Some (Finite 1), metric_2 = None\<rparr>,
      \<lparr>machine_id = Some ''M1'', timestamp = Some 21, batch_id = Some ''B1'', metric_1 = Some (Finite 1), metric_2 = None\<rparr>,
      \<lparr>machine_id = Some ''M1'', timestamp = Some 30, batch_id = Some ''B1'', metric_1 = Some (Finite 1), metric_2 = None\<rparr>]"
     and machine = "''M1''"
     and row = "\<lparr>fi_machine_id = Some ''M1'', fi_start_time = Some 30, fi_end_time = Some 30\<rparr>"
     and t = 30]
    filter_faulty_intervals_set_difference [where
     fi = "[\<lparr>fi_machine_id = Some ''M1'', fi_start_time = Some 30, fi_end_time = Some 30\<rparr>]"
     and fm = "[\<lparr>machine_id = Some ''M1'', timestamp = Some 5, batch_id = Some ''B1'', metric_1 = Some (Finite 1), metric_2 = None\<rparr>,
      \<lparr>machine_id = Some ''M1'', timestamp = Some 10, batch_id = Some ''B1'', metric_1 = Some (Finite 1), metric_2 = None\<rparr>,
      \<lparr>machine_id = Some ''M1'', timestamp = None, batch_id = Some ''B1'', metric_1 = Some (Finite 1), metric_2 = None\<rparr>,
      \<lparr>machine_id = Some ''M1'', timestamp = Some 15, batch_id = Some ''B1'', metric_1 = Some (Finite 1), metric_2 = None\<rparr>,
      \<lparr>machine_id = Some ''M1'', timestamp = Some 20, batch_id = Some ''B1'', metric_1 = Some (Finite 1), metric_2 = None\<rparr>,
      \<lparr>machine_id = Some ''M1'', timestamp = Some 21, batch_id = Some ''B1'', metric_1 = Some (Finite 1), metric_2 = None\<rparr>,
      \<lparr>machine_id = Some ''M1'', timestamp = Some 30, batch_id = Some ''B1'', metric_1 = Some (Finite 1), metric_2 = None\<rparr>]"
     and machine = "''M1''"
     and row = "\<lparr>fi_machine_id = Some ''M1'', fi_start_time = Some 30, fi_end_time = Some 30\<rparr>"
     and t = 30]
  by simp

text \<open>
  Claim C9. For every metrics table and faulty-interval table, the output of the excluder
  is a subsequence of the input metrics table: the rows that stay keep their relative
  order, and no row is duplicated or altered.
\<close>

theorem filter_faulty_intervals_subseq:
  "subseq (filter_faulty_intervals fi fm machine) fm"
  by (simp add: filter_faulty_intervals_filter)

text \<open>
  Claim C10. A faulty-interval row whose \<^verbatim>\<open>start_time\<close> or \<^verbatim>\<open>end_time\<close> is missing
  excludes no metric row: wherever it stands in the interval table, the result is the
  result without it, and alone it leaves the metrics as they are. The excluder is a
  total function: it has no failing branch on such a row.
\<close>

theorem filter_faulty_intervals_null_bound:
  "fi_start_time row = None \<or> fi_end_time row = None \<Longrightarrow>
     filter_faulty_intervals (before @ row # after) fm machine =
       filter_faulty_intervals (before @ after) fm machine
     \<and> filter_faulty_intervals [row] fm machine = fm"
proof -
  assume "fi_start_time row = None \<or> fi_end_time row = None"
  then have no: "\<And>v. \<not> (instant_ge v (fi_start_time row) \<and> instant_le v (fi_end_time row))"
    by (auto simp: in_range_iff)
  show ?thesis
    by (simp add: filter_faulty_intervals_filter no ball_Un bex_Un)
qed

text \<open>An interval without start after a proper interval, and an interval without end
  alone.\<close>

theorem filter_faulty_intervals_null_bound_witness:
  "filter_faulty_intervals
     [\<lparr>fi_machine_id = Some ''M1'', fi_start_time = Some 10, fi_end_time = Some 20\<rparr>,
      \<lparr>fi_machine_id = Some ''M1'', fi_start_time = None, fi_end_time = Some 100\<rparr>]
     [\<lparr>machine_id = Some ''M1'', timestamp = Some 5, batch_id = Some ''B1'', metric_1 = Some (Finite 1), metric_2 = None\<rparr>,
      \<lparr>machine_id = Some ''M1'', timestamp = Some 10, batch_id = Some ''B1'', metric_1 = Some (Finite 1), metric_2 = None\<rparr>,
      \<lparr>machine_id = Some ''M1'', timestamp = None, batch_id = Some ''B1'', metric_1 = Some (Finite 1), metric_2 = None\<rparr>,
      \<lparr>machine_id = Some ''M1'', timestamp = Some 15, batch_id = Some ''B1'', metric_1 = Some (Finite 1), metric_2 = None\<rparr>,
      \<lparr>machine_id = Some ''M1'', timestamp = Some 20, batch_id = Some ''B1'', metric_1 = Some (Finite 1), metric_2 = None\<rparr>,
      \<lparr>machine_id = Some ''M1'', timestamp = Some 21, batch_id = Some ''B1'', metric_1 = Some (Finite 1), metric_2 = None\<rparr>,
      \<lparr>machine_id = Some ''M1'', timestamp = Some 30, batch_id = Some ''B1'', metric_1 = Some (Finite 1), metric_2 = None\<rparr>]
     ''M1'' =
     [\<lparr>machine_id = Some ''M1'', timestamp = Some 5, batch_id = Some ''B1'', metric_1 = Some (Finite 1), metric_2 = None\<rparr>,
      \<lparr>machine_id = Some ''M1'', timestamp = None, batch_id = Some ''B1'', metric_1 = Some (Finite 1), metric_2 = None\<rparr>,
      \<lparr>machine_id = Some ''M1'', timestamp = Some 21, batch_id = Some ''B1'', metric_1 = Some (Finite 1), metric_2 = None\<rparr>,
      \<lparr>machine_id = Some ''M1'', timestamp = Some 30, batch_id = Some ''B1'', metric_1 = Some (Finite 1), metric_2 = None\<rparr>]
   \<and> filter_faulty_intervals
     [\<lparr>fi_machine_id = Some ''M1'', fi_start_time = Some 0, fi_end_time = None\<rparr>]
     [\<lparr>machine_id = Some ''M1'', timestamp = Some 5, batch_id = Some ''B1'', metric_1 = Some (Finite 1), metric_2 = None\<rparr>,
      \<lparr>machine_id = Some ''M1'', timestamp = Some 10, batch_id = Some ''B1'', metric_1 = Some (Finite 1), metric_2 = None\<rparr>,
      \<lparr>machine_id = Some ''M1'', timestamp = None, batch_id = Some ''B1'', metric_1 = Some (Finite 1), metric_2 = None\<rparr>,
      \<lparr>machine_id = Some ''M1'', timestamp = Some 15, batch_id = Some ''B1'', metric_1 = Some (Finite 1), metric_2 = None\<rparr>,
      \<lparr>machine_id = Some ''M1'', timestamp = Some 20, batch_id = Some ''B1'', metric_1 = Some (Finite 1), metric_2 = None\<rparr>,
      \<lparr>machine_id = Some ''M1'', timestamp = Some 21, batch_id = Some ''B1'', metric_1 = Some (Finite 1), metric_2 = None\<rparr>,
      \<lparr>machine_id = Some ''M1'', timestamp = Some 30, batch_id = Some ''B1'', metric_1 = Some (Finite 1), metric_2 = None\<rparr>]
     ''M1'' =
     [\<lparr>machine_id = Some ''M1'', timestamp = Some 5, batch_id = Some ''B1'', metric_1 = Some (Finite 1), metric_2 = None\<rparr>,
      \<lparr>machine_id = Some ''M1'', timestamp = Some 10, batch_id = Some ''B1'', metric_1 = Some (Finite 1), metric_2 = None\<rparr>,
      \<lparr>machine_id = Some ''M1'', timestamp = None, batch_id = Some ''B1'', metric_1 = Some (Finite 1), metric_2 = None\<rparr>,
      \<lparr>machine_id = Some ''M1'', timestamp = Some 15, batch_id = Some ''B1'', metric_1 = Some (Finite 1), metric_2 = None\<rparr>,
      \<lparr>machine_id = Some ''M1'', timestamp = Some 20, batch_id = Some ''B1'', metric_1 = Some (Finite 1), metric_2 = None\<rparr>,
      \<lparr>machine_id = Some ''M1'', timestamp = Some 21, batch_id = Some ''B1'', metric_1 = Some (Finite 1), metric_2 = None\<rparr>,
      \<lparr>machine_id = Some ''M1'', timestamp = Some 30, batch_id = Some ''B1'', metric_1 = Some (Finite 1), metric_2 = None\<rparr>]"
  using filter_faulty_intervals_null_bound [where
     row = "\<lparr>fi_machine_id = Some ''M1'', fi_start_time = None, fi_end_time = Some 100\<rparr>"
     and before = "[\<lparr>fi_machine_id = Some ''M1'', fi_start_time = Some 10, fi_end_time = Some 20\<rparr>]"
     and after = "[]"
     and fm = "[\<lparr>machine_id = Some ''M1'', timestamp = Some 5, batch_id = Some ''B1'', metric_1 = Some (Finite 1), metric_2 = None\<rparr>,
      \<lparr>machine_id = Some ''M1'', timestamp = Some 10, batch_id = Some ''B1'', metric_1 = Some (Finite 1), metric_2 = None\<rparr>,
      \<lparr>machine_id = Some ''M1'', timestamp = None, batch_id = Some ''B1'', metric_1 = Some (Finite 1), metric_2 = None\<rparr>,
      \<lparr>machine_id = Some ''M1'', timestamp = Some 15, batch_id = Some ''B1'', metric_1 = Some (Finite 1), metric_2 = None\<rparr>,
      \<lparr>machine_id = Some ''M1'', timestamp = Some 20, batch_id = Some ''B1'', metric_1 = Some (Finite 1), metric_2 = None\<rparr>,
      \<lparr>machine_id = Some ''M1'', timestamp = Some 21, batch_id = Some ''B1'', metric_1 = Some (Finite 1), metric_2 = None\<rparr>,
      \<lparr>machine_id = Some ''M1'', timestamp = Some 30, batch_id = Some ''B1'', metric_1 = Some (Finite 1), metric_2 = None\<rparr>]"
     and machine = "''M1''"]
    filter_faulty_intervals_null_bound [where
     row = "\<lparr>fi_machine_id = Some ''M1'', fi_start_time = Some 0, fi_end_time = None\<rparr>"
     and before = "[]"
     and after = "[]"
     and fm = "[\<lparr>machine_id = Some ''M1'', timestamp = Some 5, batch_id = Some ''B1'', metric_1 = Some (Finite 1), metric_2 = None\<rparr>,
      \<lparr>machine_id = Some ''M1'', timestamp = Some 10, batch_id = Some ''B1'', metric_1 = Some (Finite 1), metric_2 = None\<rparr>,
      \<lparr>machine_id = Some ''M1'', timestamp = None, batch_id = Some ''B1'', metric_1 = Some (Finite 1), metric_2 = None\<rparr>,
      \<lparr>machine_id = Some ''M1'', timestamp = Some 15, batch_id = Some ''B1'', metric_1 = Some (Finite 1), metric_2 = None\<rparr>,
      \<lparr>machine_id = Some ''M1'', timestamp = Some 20, batch_id = Some ''B1'', metric_1 = Some (Finite 1), metric_2 = None\<rparr>,
      \<lparr>machine_id = Some ''M1'', timestamp = Some 21, batch_id = Some ''B1'', metric_1 = Some (Finite 1), metric_2 = None\<rparr>,
      \<lparr>machine_id = Some ''M1'', timestamp = Some 30, batch_id = Some ''B1'', metric_1 = Some (Finite 1), metric_2 = None\<rparr>]"
     and machine = "''M1''"]
  by (simp add: faulty_mask_def series_and_def series_not_def boolean_index_def)

subsection \<open>Batch join\<close>

lemma length_pd_merge:
  "length (pd_merge left right) =
     (\<Sum>l\<leftarrow>left. length (filter (\<lambda>r. br_batch_id r = batch_id l) right))"
  unfolding pd_merge_def by (simp add: length_concat o_def)

lemma matches_unique:
  "distinct (map br_batch_id right) \<Longrightarrow>
     length (filter (\<lambda>r. br_batch_id r = k) right) = (if k \<in> set (map br_batch_id right) then 1 else 0)"
proof (induction right)
  case Nil
  show ?case by simp
next
  case (Cons r right)
  then show ?case by (auto simp: filter_empty_conv)
qed

lemma sum_list_indicator:
  "(\<Sum>x\<leftarrow>xs. if P x then 1 else 0) = length (filter P xs)"
  by (induction xs) auto

lemma truncate_merge_row: "MetricRecord.truncate (merge_row l r) = l"
  by (simp add: merge_row_def MetricRecord.truncate_def)

text \<open>
  Claim C4. For every metrics table and registry table in which the \<^verbatim>\<open>batch_id\<close> values
  are unique, the number of rows of the batch join equals the number of metric rows whose
  \<^verbatim>\<open>batch_id\<close> has a matching registry entry. Metric rows with no matching \<^verbatim>\<open>batch_id\<close>
  are dropped (an inner join): the metric columns of the joined rows are exactly the
  matching metric rows, each once and in order.
\<close>

theorem pd_merge_cardinality:
  "distinct (map br_batch_id batch_registry) \<Longrightarrow>
     length (pd_merge filtered_metrics batch_registry) =
       length (filter (\<lambda>m. \<exists>e \<in> set batch_registry. br_batch_id e = batch_id m) filtered_metrics)
     \<and> map MetricRecord.truncate (pd_merge filtered_metrics batch_registry) =
         filter (\<lambda>m. \<exists>e \<in> set batch_registry. br_batch_id e = batch_id m) filtered_metrics"
proof -
  assume d: "distinct (map br_batch_id batch_registry)"
  have len: "length (pd_merge filtered_metrics batch_registry) =
       length (filter (\<lambda>m. \<exists>e \<in> set batch_registry. br_batch_id e = batch_id m) filtered_metrics)"
  proof -
    have "length (pd_merge filtered_metrics batch_registry) =
        (\<Sum>l\<leftarrow>filtered_metrics. if batch_id l \<in> set (map br_batch_id batch_registry) then 1 else 0)"
      by (simp add: length_pd_merge matches_unique [OF d])
    also have "\<dots> = length (filter (\<lambda>m. batch_id m \<in> set (map br_batch_id batch_registry)) filtered_metrics)"
      by (rule sum_list_indicator)
    also have "\<dots> = length (filter (\<lambda>m. \<exists>e \<in> set batch_registry. br_batch_id e = batch_id m) filtered_metrics)"
      by (rule arg_cong [where f = length], rule filter_cong) force+
    finally show ?thesis .
  qed
  have rows: "map MetricRecord.truncate (pd_merge filtered_metrics batch_registry) =
         filter (\<lambda>m. \<exists>e \<in> set batch_registry. br_batch_id e = batch_id m) filtered_metrics"
  proof (induction filtered_metrics)
    case Nil
    show ?case by (simp add: pd_merge_def)
  next
    case (Cons l ls)
    define ms where "ms = filter (\<lambda>r. br_batch_id r = batch_id l) batch_registry"
    have n: "length ms = (if batch_id l \<in> set (map br_batch_id batch_registry) then 1 else 0)"
      unfolding ms_def by (rule matches_unique [OF d])
    have ex: "(\<exists>e \<in> set batch_registry. br_batch_id e = batch_id l) \<longleftrightarrow>
        batch_id l \<in> set (map br_batch_id batch_registry)"
      by force
    have "map MetricRecord.truncate (map (merge_row l) ms) =
        (if \<exists>e \<in> set batch_registry. br_batch_id e = batch_id l then [l] else [])"
      unfolding ex using n by (cases ms) (auto simp: truncate_merge_row split: if_splits)
    then have one: "map MetricRecord.truncate (map (merge_row l) (filter (\<lambda>r. br_batch_id r = batch_id l) batch_registry)) =
        (if \<exists>e \<in> set batch_registry. br_batch_id e = batch_id l then [l] else [])"
      unfolding ms_def .
    from Cons.IH one show ?case
      by (simp add: pd_merge_def)
  qed
  from len rows show ?thesis by simp
qed

text \<open>A registry of three batches against metric rows of two of them, of an unregistered
  batch and of no batch.\<close>

theorem pd_merge_cardinality_witness:
  "distinct (map br_batch_id
     [\<lparr>br_batch_id = Some ''B1'', br_arepa_type = Some ''classic''\<rparr>,
      \<lparr>br_batch_id = Some ''B2'', br_arepa_type = Some ''cheese''\<rparr>,
      \<lparr>br_batch_id = Some ''B3'', br_arepa_type = Some ''corn''\<rparr>])
   \<and> pd_merge
     [\<lparr>machine_id = Some ''M1'', timestamp = Some 1, batch_id = Some ''B1'', metric_1 = Some (Finite 1), metric_2 = None\<rparr>,
      \<lparr>machine_id = Some ''M1'', timestamp = Some 2, batch_id = Some ''B9'', metric_1 = Some (Finite 1), metric_2 = None\<rparr>,
      \<lparr>machine_id = Some ''M1'', timestamp = Some 3, batch_id = Some ''B2'', metric_1 = Some (Finite 1), metric_2 = None\<rparr>,
      \<lparr>machine_id = Some ''M1'', timestamp = Some 4, batch_id = Some ''B1'', metric_1 = Some (Finite 1), metric_2 = None\<rparr>,
      \<lparr>machine_id = Some ''M1'', timestamp = Some 5, batch_id = None, metric_1 = Some (Finite 1), metric_2 = None\<rparr>]
     [\<lparr>br_batch_id = Some ''B1'', br_arepa_type = Some ''classic''\<rparr>,
      \<lparr>br_batch_id = Some ''B2'', br_arepa_type = Some ''cheese''\<rparr>,
      \<lparr>br_batch_id = Some ''B3'', br_arepa_type = Some ''corn''\<rparr>] =
     [\<lparr>machine_id = Some ''M1'', timestamp = Some 1, batch_id = Some ''B1'', metric_1 = Some (Finite 1), metric_2 = None, arepa_type = Some ''classic''\<rparr>,
      \<lparr>machine_id = Some ''M1'', timestamp = Some 3, batch_id = Some ''B2'', metric_1 = Some (Finite 1), metric_2 = None, arepa_type = Some ''cheese''\<rparr>,
      \<lparr>machine_id = Some ''M1'', timestamp = Some 4, batch_id = Some ''B1'', metric_1 = Some (Finite 1), metric_2 = None, arepa_type = Some ''classic''\<rparr>]
   \<and> length (pd_merge
     [\<lparr>machine_id = Some ''M1'', timestamp = Some 1, batch_id = Some ''B1'', metric_1 = Some (Finite 1), metric_2 = None\<rparr>,
      \<lparr>machine_id = Some ''M1'', timestamp = Some 2, batch_id = Some ''B9'', metric_1 = Some (Finite 1), metric_2 = None\<rparr>,
      \<lparr>machine_id = Some ''M1'', timestamp = Some 3, batch_id = Some ''B2'', metric_1 = Some (Finite 1), metric_2 = None\<rparr>,
      \<lparr>machine_id = Some ''M1'', timestamp = Some 4, batch_id = Some ''B1'', metric_1 = Some (Finite 1), metric_2 = None\<rparr>,
      \<lparr>machine_id = Some ''M1'', timestamp = Some 5, batch_id = None, metric_1 = Some (Finite 1), metric_2 = None\<rparr>]
     [\<lparr>br_batch_id = Some ''B1'', br_arepa_type = Some ''classic''\<rparr>,
      \<lparr>br_batch_id = Some ''B2'', br_arepa_type = Some ''cheese''\<rparr>,
      \<lparr>br_batch_id = Some ''B3'', br_arepa_type = Some ''corn''\<rparr>]) = 3"
  using pd_merge_cardinality [where
     batch_registry = "[\<lparr>br_batch_id = Some ''B1'', br_arepa_type = Some ''classic''\<rparr>,
      \<lparr>br_batch_id = Some ''B2'', br_arepa_type = Some ''cheese''\<rparr>,
      \<lparr>br_batch_id = Some ''B3'', br_arepa_type = Some ''corn''\<rparr>]"
     and filtered_metrics = "[\<lparr>machine_id = Some ''M1'', timestamp = Some 1, batch_id = Some ''B1'', metric_1 = Some (Finite 1), metric_2 = None\<rparr>,
      \<lparr>machine_id = Some ''M1'', timestamp = Some 2, batch_id = Some ''B9'', metric_1 = Some (Finite 1), metric_2 = None\<rparr>,
      \<lparr>machine_id = Some ''M1'', timestamp = Some 3, batch_id = Some ''B2'', metric_1 = Some (Finite 1), metric_2 = None\<rparr>,
      \<lparr>machine_id = Some ''M1'', timestamp = Some 4, batch_id = Some ''B1'', metric_1 = Some (Finite 1), metric_2 = None\<rparr>,
      \<lparr>machine_id = Some ''M1'', timestamp = Some 5, batch_id = None, metric_1 = Some (Finite 1), metric_2 = None\<rparr>]"]
  by (simp add: pd_merge_def merge_row_def)

subsection \<open>Type filter\<close>

lemma filter_by_arepa_type_filter:
  "filter_by_arepa_type t a = filter (\<lambda>r. avg_arepa_type r = a) t"
  unfolding filter_by_arepa_type_def by (simp add: boolean_index_map o_def)

text \<open>
  Claim C7. The type filter is idempotent: for every aggregated table and type string
  \<open>a\<close>, filtering by \<open>a\<close> a table already filtered by \<open>a\<close> returns that table unchanged.
  A row is kept exactly when its type equals \<open>a\<close> as a string, character by character:
  nothing is normalised.
\<close>

theorem filter_by_arepa_type_idempotent:
  "filter_by_arepa_type (filter_by_arepa_type t a) a = filter_by_arepa_type t a
   \<and> filter_by_arepa_type t a = filter (\<lambda>r. avg_arepa_type r = a) t
   \<and> (\<forall>r. r \<in> set (filter_by_arepa_type t a) \<longleftrightarrow> r \<in> set t \<and> avg_arepa_type r = a)"
  by (simp add: filter_by_arepa_type_filter)

text \<open>Types that differ from the requested one by case or by a blank are not matched.\<close>

theorem filter_by_arepa_type_idempotent_witness:
  "filter_by_arepa_type
     [\<lparr>avg_timestamp = 0, avg_arepa_type = ''classic'', avg_metric_1 = Some (Finite 1), avg_metric_2 = None\<rparr>,
      \<lparr>avg_timestamp = 0, avg_arepa_type = ''Classic'', avg_metric_1 = Some (Finite 1), avg_metric_2 = None\<rparr>,
      \<lparr>avg_timestamp = 1, avg_arepa_type = ''classic '', avg_metric_1 = Some (Finite 1), avg_metric_2 = None\<rparr>,
      \<lparr>avg_timestamp = 1, avg_arepa_type = '' classic'', avg_metric_1 = Some (Finite 1), avg_metric_2 = None\<rparr>,
      \<lparr>avg_timestamp = 2, avg_arepa_type = ''classic'', avg_metric_1 = Some (Finite 1), avg_metric_2 = None\<rparr>,
      \<lparr>avg_timestamp = 2, avg_arepa_type = ''cheese'', avg_metric_1 = Some (Finite 1), avg_metric_2 = None\<rparr>]
     ''classic'' =
     [\<lparr>avg_timestamp = 0, avg_arepa_type = ''classic'', avg_metric_1 = Some (Finite 1), avg_metric_2 = None\<rparr>,
      \<lparr>avg_timestamp = 2, avg_arepa_type = ''classic'', avg_metric_1 = Some (Finite 1), avg_metric_2 = None\<rparr>]
   \<and> filter_by_arepa_type
     (filter_by_arepa_type
       [\<lparr>avg_timestamp = 0, avg_arepa_type = ''classic'', avg_metric_1 = Some (Finite 1), avg_metric_2 = None\<rparr>,
        \<lparr>avg_timestamp = 0, avg_arepa_type = ''Classic'', avg_metric_1 = Some (Finite 1), avg_metric_2 = None\<rparr>,
        \<lparr>avg_timestamp = 1, avg_arepa_type = ''classic '', avg_metric_1 = Some (Finite 1), avg_metric_2 = None\<rparr>,
        \<lparr>avg_timestamp = 1, avg_arepa_type = '' classic'', avg_metric_1 = Some (Finite 1), avg_metric_2 = None\<rparr>,
        \<lparr>avg_timestamp = 2, avg_arepa_type = ''classic'', avg_metric_1 = Some (Finite 1), avg_metric_2 = None\<rparr>,
        \<lparr>avg_timestamp = 2, avg_arepa_type = ''cheese'', avg_metric_1 = Some (Finite 1), avg_metric_2 = None\<rparr>]
       ''classic'')
     ''classic'' =
     [\<lparr>avg_timestamp = 0, avg_arepa_type = ''classic'', avg_metric_1 = Some (Finite 1), avg_metric_2 = None\<rparr>,
      \<lparr>avg_timestamp = 2, avg_arepa_type = ''classic'', avg_metric_1 = Some (Finite 1), avg_metric_2 = None\<rparr>]"
proof -
  let ?t = "[\<lparr>avg_timestamp = 0, avg_arepa_type = ''classic'', avg_metric_1 = Some (Finite 1), avg_metric_2 = None\<rparr>,
        \<lparr>avg_timestamp = 0, avg_arepa_type = ''Classic'', avg_metric_1 = Some (Finite 1), avg_metric_2 = None\<rparr>,
        \<lparr>avg_timestamp = 1, avg_arepa_type = ''classic '', avg_metric_1 = Some (Finite 1), avg_metric_2 = None\<rparr>,
        \<lparr>avg_timestamp = 1, avg_arepa_type = '' classic'', avg_metric_1 = Some (Finite 1), avg_metric_2 = None\<rparr>,
        \<lparr>avg_timestamp = 2, avg_arepa_type = ''classic'', avg_metric_1 = Some (Finite 1), avg_metric_2 = None\<rparr>,
        \<lparr>avg_timestamp = 2, avg_arepa_type = ''cheese'', avg_metric_1 = Some (Finite 1), avg_metric_2 = None\<rparr>]"
  note th = filter_by_arepa_type_idempotent [where t = ?t and a = "''classic''"]
  have idem: "filter_by_arepa_type (filter_by_arepa_type ?t ''classic'') ''classic'' =
      filter_by_arepa_type ?t ''classic''"
    by (rule th [THEN conjunct1])
  have step: "filter_by_arepa_type ?t ''classic'' = filter (\<lambda>r. avg_arepa_type r = ''classic'') ?t"
    by (rule th [THEN conjunct2, THEN conjunct1])
  have val: "filter (\<lambda>r. avg_arepa_type r = ''classic'') ?t =
      [\<lparr>avg_timestamp = 0, avg_arepa_type = ''classic'', avg_metric_1 = Some (Finite 1), avg_metric_2 = None\<rparr>,
      \<lparr>avg_timestamp = 2, avg_arepa_type = ''classic'', avg_metric_1 = Some (Finite 1), avg_metric_2 = None\<rparr>]"
    by simp
  have a: "filter_by_arepa_type ?t ''classic'' =
      [\<lparr>avg_timestamp = 0, avg_arepa_type = ''classic'', avg_metric_1 = Some (Finite 1), avg_metric_2 = None\<rparr>,
      \<lparr>avg_timestamp = 2, avg_arepa_type = ''classic'', avg_metric_1 = Some (Finite 1), avg_metric_2 = None\<rparr>]"
    by (simp only: step val)
  have b: "filter_by_arepa_type (filter_by_arepa_type ?t ''classic'') ''classic'' =
      [\<lparr>avg_timestamp = 0, avg_arepa_type = ''classic'', avg_metric_1 = Some (Finite 1), avg_metric_2 = None\<rparr>,
      \<lparr>avg_timestamp = 2, avg_arepa_type = ''classic'', avg_metric_1 = Some (Finite 1), avg_metric_2 = None\<rparr>]"
    by (rule trans [OF idem a])
  show ?thesis
    by (rule conjI [OF a b])
qed

subsection \<open>Hourly aggregator\<close>

lemma hour_bucket_floor:
  "hour_bucket t \<le> t \<and> t < hour_bucket t + hour \<and> hour dvd hour_bucket t"
proof -
  have pos: "0 < hour" by (simp add: hour_def)
  have eq: "t div hour * hour + t mod hour = t" by (rule div_mult_mod_eq)
  have lo: "0 \<le> t mod hour" using pos by simp
  have hi: "t mod hour < hour" using pos by simp
  have a: "hour_bucket t \<le> t" unfolding hour_bucket_def using eq lo by linarith
  have b: "t < hour_bucket t + hour" unfolding hour_bucket_def using eq hi by linarith
  have c: "hour dvd hour_bucket t" unfolding hour_bucket_def by simp
  from a b c show ?thesis by simp
qed

lemma group_keys_set:
  "set (List.map_filter group_key merged) =
     {(hour_bucket t, a) | r t a. r \<in> set merged \<and> timestamp r = Some t \<and> arepa_type r = Some a}"
  by (auto simp: List.map_filter_def group_key_def image_iff split: option.splits) force+

lemma group_key_Some:
  "group_key r = Some (b, a) \<longleftrightarrow> (\<exists>t. timestamp r = Some t \<and> hour_bucket t = b \<and> arepa_type r = Some a)"
  by (auto simp: group_key_def split: option.splits)

lemma aggregate_keys:
  "map (\<lambda>row. (avg_timestamp row, avg_arepa_type row)) (group_by_hourly_average_cooking_metrics merged) =
     sort (remdups (List.map_filter group_key merged))"
  unfolding group_by_hourly_average_cooking_metrics_def by (simp add: o_def)

lemma aggregate_row:
  assumes "row \<in> set (group_by_hourly_average_cooking_metrics merged)"
  shows "avg_metric_1 row =
           mean (map metric_1 (filter (\<lambda>r. \<exists>t. timestamp r = Some t \<and> hour_bucket t = avg_timestamp row
                                            \<and> arepa_type r = Some (avg_arepa_type row)) merged))"
    and "avg_metric_2 row =
           mean (map metric_2 (filter (\<lambda>r. \<exists>t. timestamp r = Some t \<and> hour_bucket t = avg_timestamp row
                                            \<and> arepa_type r = Some (avg_arepa_type row)) merged))"
  using assms unfolding group_by_hourly_average_cooking_metrics_def
  by (auto simp: group_key_Some)

text \<open>The float64 mean: missing cells are skipped, and with no rounding on the way the result
  is the arithmetic mean.\<close>

lemma foldl_mean_step_None:
  "\<forall>c \<in> set cells. c = None \<Longrightarrow> foldl mean_step st cells = st"
proof (induction cells arbitrary: st)
  case Nil
  show ?case by simp
next
  case (Cons c cells)
  obtain sumx compensation nobs where st: "st = (sumx, compensation, nobs)"
    by (cases st) auto
  from Cons.prems have c: "c = None" and rest: "\<forall>c \<in> set cells. c = None"
    by simp_all
  show ?case
    by (simp add: st c Cons.IH [OF rest])
qed

lemma mean_all_null: "\<forall>c \<in> set cells. c = None \<Longrightarrow> mean cells = None"
  unfolding mean_def by (simp add: foldl_mean_step_None)

lemma representable_0: "representable 0"
  by (simp add: representable_def round64_def)

lemma mean_step_exact:
  assumes v: "representable v" and sv: "representable (s + v)"
  shows "mean_step (Some (Finite s), Some (Finite 0), n) (Some (Finite v)) =
           (Some (Finite (s + v)), Some (Finite 0), Suc n)"
proof -
  have y: "fsub (Some (Finite v)) (Some (Finite 0)) = Some (Finite v)"
    using v by (simp add: fsub_def representable_def)
  have t: "fadd (Some (Finite s)) (Some (Finite v)) = Some (Finite (s + v))"
    using sv by (simp add: representable_def)
  have d: "fsub (Some (Finite (s + v))) (Some (Finite s)) = Some (Finite v)"
    using v by (simp add: fsub_def representable_def)
  have c: "fsub (Some (Finite v)) (Some (Finite v)) = Some (Finite 0)"
    using representable_0 by (simp add: fsub_def representable_def)
  have r: "round64 (s + v) = Finite (s + v)"
    using sv by (simp add: representable_def)
  show ?thesis
    by (simp add: Let_def y r d c)
qed

lemma foldl_mean_step_exact:
  assumes "non_null cells = map Finite qs"
    and "\<forall>q \<in> set qs. representable q"
    and "\<forall>k \<le> length qs. representable (s + sum_list (take k qs))"
  shows "foldl mean_step (Some (Finite s), Some (Finite 0), n) cells =
           (Some (Finite (s + sum_list qs)), Some (Finite 0), n + length qs)"
  using assms
proof (induction cells arbitrary: s n qs)
  case Nil
  then show ?case by (simp add: non_null_def)
next
  case (Cons c cells)
  show ?case
  proof (cases c)
    case None
    with Cons.prems(1) have nn: "non_null cells = map Finite qs"
      by (simp add: non_null_def)
    from Cons.IH [OF nn Cons.prems(2) Cons.prems(3)] None show ?thesis
      by simp
  next
    case (Some x)
    with Cons.prems(1) obtain v qs' where qs: "qs = v # qs'" and x: "x = Finite v"
      and nn: "non_null cells = map Finite qs'"
      by (cases qs) (auto simp: non_null_def)
    have rv: "representable v" using Cons.prems(2) qs by simp
    have rsv: "representable (s + v)"
      using Cons.prems(3) [rule_format, of 1] qs by simp
    have rest: "\<forall>q \<in> set qs'. representable q" using Cons.prems(2) qs by simp
    have pre: "\<forall>k \<le> length qs'. representable (s + v + sum_list (take k qs'))"
    proof (intro allI impI)
      fix k assume "k \<le> length qs'"
      then have "Suc k \<le> length qs" using qs by simp
      from Cons.prems(3) [rule_format, OF this] show "representable (s + v + sum_list (take k qs'))"
        using qs by (simp add: add.assoc)
    qed
    have "foldl mean_step (Some (Finite s), Some (Finite 0), n) (c # cells) =
        foldl mean_step (Some (Finite (s + v)), Some (Finite 0), Suc n) cells"
      unfolding Some x by (simp only: foldl.simps mean_step_exact [OF rv rsv])
    also have "\<dots> = (Some (Finite (s + v + sum_list qs')), Some (Finite 0), Suc n + length qs')"
      by (rule Cons.IH [OF nn rest pre])
    finally show ?thesis
      using qs by (simp add: add.assoc)
  qed
qed

lemma mean_exact:
  assumes nn: "non_null cells = map Finite qs"
    and ne: "qs \<noteq> []"
    and rq: "\<forall>q \<in> set qs. representable q"
    and rs: "\<forall>k \<le> length qs. representable (sum_list (take k qs))"
    and rn: "representable (of_nat (length qs))"
    and rm: "representable (sum_list qs / of_nat (length qs))"
  shows "mean cells = Some (Finite (sum_list qs / of_nat (length qs)))"
proof -
  have pre: "\<forall>k \<le> length qs. representable (0 + sum_list (take k qs))"
    using rs by simp
  have f: "foldl mean_step (Some (Finite 0), Some (Finite 0), 0) cells =
      (Some (Finite (sum_list qs)), Some (Finite 0), length qs)"
    using foldl_mean_step_exact [OF nn rq pre, of 0] by simp
  have n0: "length qs \<noteq> 0" using ne by simp
  show ?thesis
    unfolding mean_def f using n0 rn rm by (simp add: representable_def)
qed

text \<open>
  Claim C3, amended. For every joined table, the hourly aggregator produces exactly one
  output row per (hour bucket, \<^verbatim>\<open>arepa_type\<close>) pair present in the input: the key pairs
  of the output rows are pairwise distinct, and they are the pairs of the input rows (a
  row has a pair when it has a timestamp and a type). The \<^verbatim>\<open>timestamp\<close> of an output row
  is the bucket start, the input timestamp truncated down to the start of its clock hour.
  Each group's \<^verbatim>\<open>metric_1\<close> and \<^verbatim>\<open>metric_2\<close> are the float64 means of the group's column:
  the compensated float64 sum of the values that are not missing, in row order, divided
  by their count. A group whose metric column is entirely missing yields the missing
  mean, and nothing fails. Where no operation rounds (the values, their partial sums, the
  count and the quotient are float64 values) the float64 mean is the arithmetic mean.
\<close>

theorem group_by_hourly_average_float_means:
  "distinct (map (\<lambda>row. (avg_timestamp row, avg_arepa_type row))
              (group_by_hourly_average_cooking_metrics merged))
   \<and> set (map (\<lambda>row. (avg_timestamp row, avg_arepa_type row))
              (group_by_hourly_average_cooking_metrics merged)) =
       {(hour_bucket t, a) | r t a. r \<in> set merged \<and> timestamp r = Some t \<and> arepa_type r = Some a}
   \<and> (\<forall>t. hour_bucket t \<le> t \<and> t < hour_bucket t + hour \<and> hour dvd hour_bucket t)
   \<and> (\<forall>row \<in> set (group_by_hourly_average_cooking_metrics merged).
        avg_metric_1 row = mean (map metric_1
            (filter (\<lambda>r. \<exists>t. timestamp r = Some t \<and> hour_bucket t = avg_timestamp row
                              \<and> arepa_type r = Some (avg_arepa_type row)) merged))
      \<and> avg_metric_2 row = mean (map metric_2
            (filter (\<lambda>r. \<exists>t. timestamp r = Some t \<and> hour_bucket t = avg_timestamp row
                              \<and> arepa_type r = Some (avg_arepa_type row)) merged)))
   \<and> (\<forall>cells. (\<forall>c \<in> set cells. c = None) \<longrightarrow> mean cells = None)
   \<and> (\<forall>cells qs.
        non_null cells = map Finite qs \<and> qs \<noteq> []
        \<and> (\<forall>q \<in> set qs. representable q)
        \<and> (\<forall>k \<le> length qs. representable (sum_list (take k qs)))
        \<and> representable (of_nat (length qs))
        \<and> representable (sum_list qs / of_nat (length qs))
        \<longrightarrow> mean cells = map_option Finite (arithmetic_mean qs))"
proof -
  have keys: "map (\<lambda>row. (avg_timestamp row, avg_arepa_type row))
        (group_by_hourly_average_cooking_metrics merged) =
      sort (remdups (List.map_filter group_key merged))"
    by (rule aggregate_keys)
  have d: "distinct (map (\<lambda>row. (avg_timestamp row, avg_arepa_type row))
              (group_by_hourly_average_cooking_metrics merged))"
    unfolding keys by simp
  have s: "set (map (\<lambda>row. (avg_timestamp row, avg_arepa_type row))
              (group_by_hourly_average_cooking_metrics merged)) =
       {(hour_bucket t, a) | r t a. r \<in> set merged \<and> timestamp r = Some t \<and> arepa_type r = Some a}"
    unfolding keys by (simp add: group_keys_set)
  have m: "\<forall>row \<in> set (group_by_hourly_average_cooking_metrics merged).
        avg_metric_1 row = mean (map metric_1
            (filter (\<lambda>r. \<exists>t. timestamp r = Some t \<and> hour_bucket t = avg_timestamp row
                              \<and> arepa_type r = Some (avg_arepa_type row)) merged))
      \<and> avg_metric_2 row = mean (map metric_2
            (filter (\<lambda>r. \<exists>t. timestamp r = Some t \<and> hour_bucket t = avg_timestamp row
                              \<and> arepa_type r = Some (avg_arepa_type row)) merged))"
    by (simp add: aggregate_row)
  have n: "\<forall>cells. (\<forall>c \<in> set cells. c = None) \<longrightarrow> mean cells = None"
    by (simp add: mean_all_null)
  have e: "\<forall>cells qs.
        non_null cells = map Finite qs \<and> qs \<noteq> []
        \<and> (\<forall>q \<in> set qs. representable q)
        \<and> (\<forall>k \<le> length qs. representable (sum_list (take k qs)))
        \<and> representable (of_nat (length qs))
        \<and> representable (sum_list qs / of_nat (length qs))
        \<longrightarrow> mean cells = map_option Finite (arithmetic_mean qs)"
    by (auto simp: mean_exact arithmetic_mean_def)
  from d s m n e hour_bucket_floor show ?thesis
    by blast
qed

text \<open>A table with two buckets and two types: a row at the start of an hour, a row one
  nanosecond before the next hour, columns without values, a row without timestamp and
  a row without type; and the mean of 2 and 3, where nothing rounds.\<close>

lemma representable_examples:
  "representable 2" "representable 3" "representable 5" "representable (5 / 2)"
  by (simp_all only: representable_def) code_simp+

lemma group_by_hourly_average_example:
  "group_by_hourly_average_cooking_metrics
     [\<lparr>machine_id = Some ''M1'', timestamp = Some 5400000000000, batch_id = Some ''B1'', metric_1 = Some (Finite 2), metric_2 = None, arepa_type = Some ''classic''\<rparr>,
      \<lparr>machine_id = Some ''M1'', timestamp = Some 3600000000000, batch_id = Some ''B1'', metric_1 = Some (Finite 3), metric_2 = None, arepa_type = Some ''classic''\<rparr>,
      \<lparr>machine_id = Some ''M1'', timestamp = Some 7199999999999, batch_id = Some ''B1'', metric_1 = None, metric_2 = Some (Finite 4), arepa_type = Some ''cheese''\<rparr>,
      \<lparr>machine_id = Some ''M1'', timestamp = Some 7200000000000, batch_id = Some ''B1'', metric_1 = None, metric_2 = None, arepa_type = Some ''classic''\<rparr>,
      \<lparr>machine_id = Some ''M1'', timestamp = None, batch_id = Some ''B1'', metric_1 = Some (Finite 7), metric_2 = Some (Finite 7), arepa_type = Some ''classic''\<rparr>,
      \<lparr>machine_id = Some ''M1'', timestamp = Some 0, batch_id = Some ''B1'', metric_1 = Some (Finite 8), metric_2 = Some (Finite 8), arepa_type = None\<rparr>] =
     [\<lparr>avg_timestamp = 3600000000000, avg_arepa_type = ''cheese'', avg_metric_1 = None, avg_metric_2 = Some (Finite 4)\<rparr>,
      \<lparr>avg_timestamp = 3600000000000, avg_arepa_type = ''classic'', avg_metric_1 = Some (Finite (5 / 2)), avg_metric_2 = None\<rparr>,
      \<lparr>avg_timestamp = 7200000000000, avg_arepa_type = ''classic'', avg_metric_1 = None, avg_metric_2 = None\<rparr>]"
  by code_simp

theorem group_by_hourly_average_float_means_witness:
  "group_by_hourly_average_cooking_metrics
     [\<lparr>machine_id = Some ''M1'', timestamp = Some 5400000000000, batch_id = Some ''B1'', metric_1 = Some (Finite 2), metric_2 = None, arepa_type = Some ''classic''\<rparr>,
      \<lparr>machine_id = Some ''M1'', timestamp = Some 3600000000000, batch_id = Some ''B1'', metric_1 = Some (Finite 3), metric_2 = None, arepa_type = Some ''classic''\<rparr>,
      \<lparr>machine_id = Some ''M1'', timestamp = Some 7199999999999, batch_id = Some ''B1'', metric_1 = None, metric_2 = Some (Finite 4), arepa_type = Some ''cheese''\<rparr>,
      \<lparr>machine_id = Some ''M1'', timestamp = Some 7200000000000, batch_id = Some ''B1'', metric_1 = None, metric_2 = None, arepa_type = Some ''classic''\<rparr>,
      \<lparr>machine_id = Some ''M1'', timestamp = None, batch_id = Some ''B1'', metric_1 = Some (Finite 7), metric_2 = Some (Finite 7), arepa_type = Some ''classic''\<rparr>,
      \<lparr>machine_id = Some ''M1'', timestamp = Some 0, batch_id = Some ''B1'', metric_1 = Some (Finite 8), metric_2 = Some (Finite 8), arepa_type = None\<rparr>] =
     [\<lparr>avg_timestamp = 3600000000000, avg_arepa_type = ''cheese'', avg_metric_1 = None, avg_metric_2 = Some (Finite 4)\<rparr>,
      \<lparr>avg_timestamp = 3600000000000, avg_arepa_type = ''classic'', avg_metric_1 = Some (Finite (5 / 2)), avg_metric_2 = None\<rparr>,
      \<lparr>avg_timestamp = 7200000000000, avg_arepa_type = ''classic'', avg_metric_1 = None, avg_metric_2 = None\<rparr>]
   \<and> mean [Some (Finite 2), None, Some (Finite 3)] = Some (Finite (5 / 2))
   \<and> mean [None, None] = None"
proof -
  let ?t = "[\<lparr>machine_id = Some ''M1'', timestamp = Some 5400000000000, batch_id = Some ''B1'', metric_1 = Some (Finite 2), metric_2 = None, arepa_type = Some ''classic''\<rparr>,
        \<lparr>machine_id = Some ''M1'', timestamp = Some 3600000000000, batch_id = Some ''B1'', metric_1 = Some (Finite 3), metric_2 = None, arepa_type = Some ''classic''\<rparr>,
        \<lparr>machine_id = Some ''M1'', timestamp = Some 7199999999999, batch_id = Some ''B1'', metric_1 = None, metric_2 = Some (Finite 4), arepa_type = Some ''cheese''\<rparr>,
        \<lparr>machine_id = Some ''M1'', timestamp = Some 7200000000000, batch_id = Some ''B1'', metric_1 = None, metric_2 = None, arepa_type = Some ''classic''\<rparr>,
        \<lparr>machine_id = Some ''M1'', timestamp = None, batch_id = Some ''B1'', metric_1 = Some (Finite 7), metric_2 = Some (Finite 7), arepa_type = Some ''classic''\<rparr>,
        \<lparr>machine_id = Some ''M1'', timestamp = Some 0, batch_id = Some ''B1'', metric_1 = Some (Finite 8), metric_2 = Some (Finite 8), arepa_type = None\<rparr>]"
  let ?row = "\<lparr>avg_timestamp = 3600000000000, avg_arepa_type = ''classic'', avg_metric_1 = Some (Finite (5 / 2)), avg_metric_2 = None\<rparr>"
  note th = group_by_hourly_average_float_means [of ?t]
  have ev: "group_by_hourly_average_cooking_metrics ?t =
     [\<lparr>avg_timestamp = 3600000000000, avg_arepa_type = ''cheese'', avg_metric_1 = None, avg_metric_2 = Some (Finite 4)\<rparr>,
      \<lparr>avg_timestamp = 3600000000000, avg_arepa_type = ''classic'', avg_metric_1 = Some (Finite (5 / 2)), avg_metric_2 = None\<rparr>,
      \<lparr>avg_timestamp = 7200000000000, avg_arepa_type = ''classic'', avg_metric_1 = None, avg_metric_2 = None\<rparr>]"
    by (rule group_by_hourly_average_example)
  have ex: "mean [Some (Finite 2), None, Some (Finite 3)] = map_option Finite (arithmetic_mean [2, 3])"
  proof (rule th [THEN conjunct2, THEN conjunct2, THEN conjunct2, THEN conjunct2, THEN conjunct2,
        THEN spec, THEN spec, THEN mp])
    have "\<forall>k \<le> length [2, 3 :: rat]. representable (sum_list (take k [2, 3]))"
    proof (intro allI impI)
      fix k :: nat assume "k \<le> length [2, 3 :: rat]"
      then have "k = 0 \<or> k = 1 \<or> k = 2" by auto
      then show "representable (sum_list (take k [2, 3 :: rat]))"
        using representable_0 representable_examples by auto
    qed
    then show "non_null [Some (Finite 2), None, Some (Finite 3)] = map Finite [2, 3] \<and> [2, 3 :: rat] \<noteq> []
        \<and> (\<forall>q \<in> set [2, 3]. representable q)
        \<and> (\<forall>k \<le> length [2, 3 :: rat]. representable (sum_list (take k [2, 3])))
        \<and> representable (of_nat (length [2, 3 :: rat]))
        \<and> representable (sum_list [2, 3] / of_nat (length [2, 3 :: rat]))"
      using representable_examples by (simp add: non_null_def)
  qed
  have nu: "mean [None, None] = None"
    by (rule th [THEN conjunct2, THEN conjunct2, THEN conjunct2, THEN conjunct2, THEN conjunct1,
        THEN spec, THEN mp]) simp
  from ev ex nu show ?thesis
    by (simp add: arithmetic_mean_def)
qed

text \<open>
  Claim C3 as stated, with the arithmetic mean itself, fails where the sum rounds: for
  the two float64 values nearest to 0.1 and 0.2 in one group, the aggregate is the
  float64 0.15000000000000002, which is not their arithmetic mean.
\<close>

lemma float_examples:
  "representable (3602879701896397 / 36028797018963968)"
  "representable (3602879701896397 / 18014398509481984)"
  by (simp_all only: representable_def) code_simp+

lemma group_by_hourly_average_rounds:
  "group_by_hourly_average_cooking_metrics
     [\<lparr>machine_id = Some ''M1'', timestamp = Some 0, batch_id = Some ''B1'', metric_1 = Some (Finite (3602879701896397 / 36028797018963968)), metric_2 = None, arepa_type = Some ''classic''\<rparr>,
      \<lparr>machine_id = Some ''M1'', timestamp = Some 1, batch_id = Some ''B1'', metric_1 = Some (Finite (3602879701896397 / 18014398509481984)), metric_2 = None, arepa_type = Some ''classic''\<rparr>] =
     [\<lparr>avg_timestamp = 0, avg_arepa_type = ''classic'', avg_metric_1 = Some (Finite (1351079888211149 / 9007199254740992)), avg_metric_2 = None\<rparr>]"
  by code_simp

theorem group_by_hourly_average_not_arithmetic_mean:
  "representable (3602879701896397 / 36028797018963968)
   \<and> representable (3602879701896397 / 18014398509481984)
   \<and> group_by_hourly_average_cooking_metrics
     [\<lparr>machine_id = Some ''M1'', timestamp = Some 0, batch_id = Some ''B1'', metric_1 = Some (Finite (3602879701896397 / 36028797018963968)), metric_2 = None, arepa_type = Some ''classic''\<rparr>,
      \<lparr>machine_id = Some ''M1'', timestamp = Some 1, batch_id = Some ''B1'', metric_1 = Some (Finite (3602879701896397 / 18014398509481984)), metric_2 = None, arepa_type = Some ''classic''\<rparr>] =
     [\<lparr>avg_timestamp = 0, avg_arepa_type = ''classic'', avg_metric_1 = Some (Finite (1351079888211149 / 9007199254740992)), avg_metric_2 = None\<rparr>]
   \<and> arithmetic_mean [3602879701896397 / 36028797018963968, 3602879701896397 / 18014398509481984] =
       Some (10808639105689191 / 72057594037927936)
   \<and> (1351079888211149 / 9007199254740992 :: rat) \<noteq> 10808639105689191 / 72057594037927936"
  using float_examples group_by_hourly_average_rounds
  by (simp add: arithmetic_mean_def)

subsection \<open>Pipeline\<close>

lemma clock_time_le:
  "clock_time d h m \<le> clock_time d h' m' \<longleftrightarrow> h * 60 + m \<le> h' * 60 + m'"
  unfolding clock_time_def hour_def minute_def by auto

lemma hour_bucket_clock_time:
  assumes "0 \<le> m" "m < 60"
  shows "hour_bucket (clock_time d h m) = clock_time d h 0"
proof -
  have "clock_time d h m = m * minute + (d * 24 + h) * hour"
    unfolding clock_time_def by (simp add: algebra_simps)
  then have "clock_time d h m div hour = (m * minute) div hour + (d * 24 + h)"
    by (simp add: hour_def)
  moreover have "(m * minute) div hour = 0"
    using assms unfolding hour_def minute_def by (simp add: div_pos_pos_trivial)
  ultimately have "clock_time d h m div hour = d * 24 + h" by simp
  then show ?thesis
    unfolding hour_bucket_def by (simp add: clock_time_def algebra_simps)
qed

lemma mean_scenario:
  "mean [Some (Finite 2), Some (Finite 3)] = Some (Finite (5 / 2))"
  "mean [Some (Finite 4), Some (Finite 5)] = Some (Finite (9 / 2))"
  by code_simp+

lemma generate_training_dataset_Inr:
  "generate_training_dataset (Inr cooking_metrics) (Inr faulty_intervals) (Inr batch_registry)
       machine arepa_type_name (Inr start_datetime) (Inr end_datetime) =
     Inr (filter_by_arepa_type
            (group_by_hourly_average_cooking_metrics
              (pd_merge
                (filter_faulty_intervals faulty_intervals
                  (filter_cooking_data cooking_metrics machine start_datetime end_datetime) machine)
                batch_registry))
            arepa_type_name)"
  unfolding generate_training_dataset_def by (simp add: Let_def)

text \<open>
  Claim C5. End to end, on any day: the pipeline on the metrics (M1, 10:15, B1, 2.0, 4.0),
  (M1, 10:45, B1, 3.0, 5.0), (M1, 11:05, B1, 10.0, 10.0), the faulty interval
  (M1, 11:00 to 11:30), the registry (B1, classic), the window 10:00 to 12:00, the machine
  M1 and the requested type classic produces exactly one output row: timestamp 10:00,
  type classic, \<^verbatim>\<open>metric_1\<close> 2.5 and \<^verbatim>\<open>metric_2\<close> 4.5.
\<close>

theorem generate_training_dataset_scenario:
  "generate_training_dataset
     (Inr [\<lparr>machine_id = Some ''M1'', timestamp = Some (clock_time day 10 15), batch_id = Some ''B1'',
             metric_1 = Some (Finite 2), metric_2 = Some (Finite 4)\<rparr>,
           \<lparr>machine_id = Some ''M1'', timestamp = Some (clock_time day 10 45), batch_id = Some ''B1'',
             metric_1 = Some (Finite 3), metric_2 = Some (Finite 5)\<rparr>,
           \<lparr>machine_id = Some ''M1'', timestamp = Some (clock_time day 11 5), batch_id = Some ''B1'',
             metric_1 = Some (Finite 10), metric_2 = Some (Finite 10)\<rparr>])
     (Inr [\<lparr>fi_machine_id = Some ''M1'', fi_start_time = Some (clock_time day 11 0),
             fi_end_time = Some (clock_time day 11 30)\<rparr>])
     (Inr [\<lparr>br_batch_id = Some ''B1'', br_arepa_type = Some ''classic''\<rparr>])
     ''M1'' ''classic'' (Inr (clock_time day 10 0)) (Inr (clock_time day 12 0)) =
   Inr [\<lparr>avg_timestamp = clock_time day 10 0, avg_arepa_type = ''classic'',
          avg_metric_1 = Some (Finite (5 / 2)), avg_metric_2 = Some (Finite (9 / 2))\<rparr>]"
  unfolding generate_training_dataset_Inr
  apply (simp add: filter_cooking_data_filter filter_faulty_intervals_filter clock_time_le)
  apply (simp add: pd_merge_def merge_row_def group_by_hourly_average_cooking_metrics_def
      List.map_filter_def group_key_def hour_bucket_clock_time filter_by_arepa_type_filter
      mean_scenario)
  done

lemma pd_merge_arepa_type:
  "r \<in> set (pd_merge left right) \<Longrightarrow> \<exists>entry \<in> set right. arepa_type r = br_arepa_type entry"
  unfolding pd_merge_def by (auto simp: merge_row_def)

lemma aggregate_arepa_type:
  assumes "row \<in> set (group_by_hourly_average_cooking_metrics merged)"
  shows "\<exists>r \<in> set merged. arepa_type r = Some (avg_arepa_type row)"
proof -
  from assms have "(avg_timestamp row, avg_arepa_type row) \<in>
      set (map (\<lambda>row. (avg_timestamp row, avg_arepa_type row)) (group_by_hourly_average_cooking_metrics merged))"
    by force
  then have "(avg_timestamp row, avg_arepa_type row) \<in> set (List.map_filter group_key merged)"
    unfolding aggregate_keys by simp
  then show ?thesis
    unfolding group_keys_set by auto
qed

text \<open>An exception of a load or of the parsing of an instant ends the run: the first one,
  in the order of the calls, is the result.\<close>

lemma generate_training_dataset_fail_fast:
  "generate_training_dataset (Inl e) faulty_loaded batch_loaded machine arepa_type_name
       start_parsed end_parsed = Inl e"
  "generate_training_dataset (Inr cooking_metrics) (Inl e) batch_loaded machine arepa_type_name
       start_parsed end_parsed = Inl e"
  "generate_training_dataset (Inr cooking_metrics) (Inr faulty_intervals) (Inl e) machine
       arepa_type_name start_parsed end_parsed = Inl e"
  "generate_training_dataset (Inr cooking_metrics) (Inr faulty_intervals) (Inr batch_registry)
       machine arepa_type_name (Inl e) end_parsed = Inl e"
  "generate_training_dataset (Inr cooking_metrics) (Inr faulty_intervals) (Inr batch_registry)
       machine arepa_type_name (Inr start_datetime) (Inl e) = Inl e"
  unfolding generate_training_dataset_def by simp_all

text \<open>
  Claim C8. For every input in which the requested \<^verbatim>\<open>arepa_type\<close> is absent from the
  registry, from the joined table or from the aggregate, the pipeline completes without
  error and yields a table of zero rows. The inputs are the tables of three loads that
  succeeded and two instants that parsed.
\<close>

theorem generate_training_dataset_absent_type:
  assumes "(\<forall>entry \<in> set batch_registry. br_arepa_type entry \<noteq> Some arepa_type_name)
         \<or> (\<forall>r \<in> set (pd_merge
                (filter_faulty_intervals faulty_intervals
                  (filter_cooking_data cooking_metrics machine start_datetime end_datetime) machine)
                batch_registry). arepa_type r \<noteq> Some arepa_type_name)
         \<or> (\<forall>row \<in> set (group_by_hourly_average_cooking_metrics
                (pd_merge
                  (filter_faulty_intervals faulty_intervals
                    (filter_cooking_data cooking_metrics machine start_datetime end_datetime) machine)
                  batch_registry)). avg_arepa_type row \<noteq> arepa_type_name)"
  shows "generate_training_dataset (Inr cooking_metrics) (Inr faulty_intervals) (Inr batch_registry)
       machine arepa_type_name (Inr start_datetime) (Inr end_datetime) = Inr []"
proof -
  let ?joined = "pd_merge
                (filter_faulty_intervals faulty_intervals
                  (filter_cooking_data cooking_metrics machine start_datetime end_datetime) machine)
                batch_registry"
  have j: "\<forall>r \<in> set ?joined. arepa_type r \<noteq> Some arepa_type_name"
    if "\<forall>entry \<in> set batch_registry. br_arepa_type entry \<noteq> Some arepa_type_name"
    using that pd_merge_arepa_type by metis
  have a: "\<forall>row \<in> set (group_by_hourly_average_cooking_metrics ?joined). avg_arepa_type row \<noteq> arepa_type_name"
    if "\<forall>r \<in> set ?joined. arepa_type r \<noteq> Some arepa_type_name"
    using that aggregate_arepa_type by metis
  from assms j a
  have "\<forall>row \<in> set (group_by_hourly_average_cooking_metrics ?joined). avg_arepa_type row \<noteq> arepa_type_name"
    by blast
  then have "filter_by_arepa_type (group_by_hourly_average_cooking_metrics ?joined) arepa_type_name = []"
    by (simp add: filter_by_arepa_type_filter filter_empty_conv)
  then show ?thesis
    by (simp add: generate_training_dataset_Inr)
qed

text \<open>A registry that knows the type classic only, asked for cheese.\<close>

theorem generate_training_dataset_absent_type_witness:
  "generate_training_dataset
     (Inr [\<lparr>machine_id = Some ''M1'', timestamp = Some (clock_time 0 10 15), batch_id = Some ''B1'',
             metric_1 = Some (Finite 2), metric_2 = Some (Finite 4)\<rparr>,
           \<lparr>machine_id = Some ''M1'', timestamp = Some (clock_time 0 10 45), batch_id = Some ''B1'',
             metric_1 = Some (Finite 3), metric_2 = Some (Finite 5)\<rparr>])
     (Inr [])
     (Inr [\<lparr>br_batch_id = Some ''B1'', br_arepa_type = Some ''classic''\<rparr>])
     ''M1'' ''cheese'' (Inr (clock_time 0 10 0)) (Inr (clock_time 0 12 0)) = Inr []"
  by (rule generate_training_dataset_absent_type) simp

subsection \<open>Dataset loader\<close>














end
